theory Spec2Isabelle
  imports Complex_Main "HOL-Library.Monad_Syntax"
begin

section \<open>Deflection model of compute\_deflections.py\<close>

text \<open>
  The Python source computes with double precision floats. The embedding below reads
  every float as a real number and every arithmetic operator as the exact operation on
  reals, so the theorems of this theory are statements about the formulas of the source
  in exact arithmetic; rounding errors of the floating point unit are not modelled.
\<close>

subsection \<open>The four closed-form functions\<close>

definition y1 :: "real \<Rightarrow> real \<Rightarrow> real \<Rightarrow> real \<Rightarrow> real \<Rightarrow> real" where
  "y1 x E1 I L w =
     (- w / (24 * E1 * I)) * (L - x) ^ 4 - (w * L ^ 3) / (6 * E1 * I) * x
       + (w * L ^ 4) / (24 * E1 * I)"

definition y2 :: "real \<Rightarrow> real \<Rightarrow> real \<Rightarrow> real \<Rightarrow> real \<Rightarrow> real \<Rightarrow> real \<Rightarrow> real" where
  "y2 x E1 E2 I L T w =
     (let term1 = (- w) / (24 * E2 * I) * (L - x) ^ 4;
          coefficient = (- w) / (6 * I) * ((L ^ 3 - (L - T) ^ 3) / E1 + (L - T) ^ 3 / E2);
          term2 = coefficient * x;
          term3 = (w / (24 * E1 * I)) * (L ^ 4 - (L - T) ^ 4 - 4 * L ^ 3 * T);
          term4 = (w / (24 * E2 * I)) * (L - T) ^ 4;
          term5 = - coefficient * T
      in term1 + term2 + term3 + term4 + term5)"

definition theta1 :: "real \<Rightarrow> real \<Rightarrow> real \<Rightarrow> real \<Rightarrow> real \<Rightarrow> real" where
  "theta1 x E1 I L w = (w / (6 * E1 * I)) * (L - x) ^ 3 - (w * L ^ 3) / (6 * E1 * I)"

definition theta2 :: "real \<Rightarrow> real \<Rightarrow> real \<Rightarrow> real \<Rightarrow> real \<Rightarrow> real \<Rightarrow> real \<Rightarrow> real" where
  "theta2 x E1 E2 I L T w =
     (let term1 = (w / (6 * E2 * I)) * (L - x) ^ 3;
          coefficient = (- w) / (6 * I) * ((L ^ 3 - (L - T) ^ 3) / E1 + (L - T) ^ 3 / E2)
      in term1 + coefficient)"

subsection \<open>The same functions with the division of Python\<close>







subsection \<open>The piecewise dispatch of the sweep\<close>

text \<open>
  Inside the sampling loop the source selects the segment by \<open>x < T\<close>: segment 1 below
  the transition point, segment 2 from the transition point on.
\<close>

definition deflection :: "real \<Rightarrow> real \<Rightarrow> real \<Rightarrow> real \<Rightarrow> real \<Rightarrow> real \<Rightarrow> real \<Rightarrow> real" where
  "deflection x E1 E2 I L T w = (if x < T then y1 x E1 I L w else y2 x E1 E2 I L T w)"

definition slope :: "real \<Rightarrow> real \<Rightarrow> real \<Rightarrow> real \<Rightarrow> real \<Rightarrow> real \<Rightarrow> real \<Rightarrow> real" where
  "slope x E1 E2 I L T w = (if x < T then theta1 x E1 I L w else theta2 x E1 E2 I L T w)"

section \<open>Sweep engine\<close>

subsection \<open>Library data\<close>

text \<open>
  The classes of \<open>beam_library\<close> are read through the attributes and accessors that
  \<open>compute_deflections\<close> uses: \<open>beam.name\<close>, \<open>beam.length\<close>,
  \<open>beam.moment_of_inertia()\<close>, \<open>material.name\<close>, \<open>material.E\<close>, \<open>load.name\<close>,
  \<open>load.w\<close>, and the three accessors of the library, each returning a list.
\<close>

record beam =
  beam_name :: string
  beam_length :: real
  beam_moment_of_inertia :: real

record material =
  material_name :: string
  material_E :: real

record load =
  load_name :: string
  load_w :: real

record library =
  get_materials :: "material list"
  get_beams :: "beam list"
  get_loads :: "load list"

subsection \<open>Numeric helpers of numpy and Python\<close>

definition step :: real where
  "step = 0.0025"

text \<open>
  \<open>np.arange(start, stop, step)\<close> has \<open>ceil((stop - start) / step)\<close> elements (none when
  that number is not positive), the \<open>i\<close>-th being \<open>start + i * step\<close>.
\<close>

definition arange :: "real \<Rightarrow> real \<Rightarrow> real \<Rightarrow> real list" where
  "arange start stop stp =
     map (\<lambda>i. start + real i * stp) [0..<nat \<lceil>(stop - start) / stp\<rceil>]"

definition x_values :: "real \<Rightarrow> real list" where
  "x_values L = arange 0 (L + step) step"

definition degrees :: "real \<Rightarrow> real" where
  "degrees theta = theta * (180 / pi)"

text \<open>Rounding to the nearest integer, ties to the even neighbour.\<close>

definition rint :: "real \<Rightarrow> int" where
  "rint r =
     (let f = \<lfloor>r\<rfloor> in
      if r - of_int f < 1 / 2 then f
      else if 1 / 2 < r - of_int f then f + 1
      else if even f then f else f + 1)"

text \<open>\<open>round(x, n)\<close> on a numpy float: scale by \<open>10 ** n\<close>, round, scale back.\<close>

definition round_ndigits :: "real \<Rightarrow> nat \<Rightarrow> real" where
  "round_ndigits x n = of_int (rint (x * 10 ^ n)) / 10 ^ n"

text \<open>\<open>itertools.product(xs, repeat=2)\<close>: the rightmost component advances fastest.\<close>

definition itertools_product2 :: "'a list \<Rightarrow> ('a \<times> 'a) list" where
  "itertools_product2 xs = concat (map (\<lambda>a. map (\<lambda>b. (a, b)) xs) xs)"

subsection \<open>Console, input and the CSV writer\<close>

datatype cell = Str string | Num real

type_synonym csv_row = "cell list"

text \<open>
  The lines printed to the console, with the values interpolated into them. \<open>PromptT\<close> is
  the prompt text of \<open>input\<close>.
\<close>

datatype message =
    NoBeams
  | NoLoads
  | NoMaterials
  | Configuring string
  | PromptT string real
  | OutOfRange real
  | InvalidInput
  | Written string

datatype error = EOFError

text \<open>
  A line typed by the user is kept as the result of \<open>float(T_input)\<close>: \<open>None\<close> when the
  conversion raises ValueError, \<open>Some T\<close> otherwise. (A line parsed as \<open>nan\<close> or an
  infinity fails the test \<open>0 < T < L\<close> like any number out of range.) When the input is
  exhausted \<open>input\<close> raises EOFError, which the loop does not catch.
\<close>

record run_state =
  stdin :: "real option list"
  stdout :: "message list"
  csv :: "csv_row list"

definition print_msg :: "message \<Rightarrow> run_state \<Rightarrow> run_state" where
  "print_msg m s = s\<lparr>stdout := stdout s @ [m]\<rparr>"

definition writerow :: "csv_row \<Rightarrow> run_state \<Rightarrow> run_state" where
  "writerow r s = s\<lparr>csv := csv s @ [r]\<rparr>"

definition header :: csv_row where
  "header = [Str ''Beam'', Str ''Load'', Str ''Material1'', Str ''Material2'',
             Str ''x (m)'', Str ''y(x) (m)'', Str ''theta(x) (degrees)'']"

subsection \<open>The loops of compute\_deflections, innermost first\<close>

definition sample_row :: "beam \<Rightarrow> real \<Rightarrow> load \<Rightarrow> material \<Rightarrow> material \<Rightarrow> real \<Rightarrow> csv_row" where
  "sample_row beam T load material1 material2 x =
     (let I = beam_moment_of_inertia beam;
          L = beam_length beam;
          w = load_w load;
          E1 = material_E material1;
          E2 = material_E material2;
          y = deflection x E1 E2 I L T w;
          theta = slope x E1 E2 I L T w;
          theta_degrees = degrees theta
      in [Str (beam_name beam), Str (load_name load),
          Str (material_name material1), Str (material_name material2),
          Num (round_ndigits x 4), Num y, Num (round_ndigits theta_degrees 6)])"

definition x_loop :: "beam \<Rightarrow> real \<Rightarrow> load \<Rightarrow> material \<Rightarrow> material \<Rightarrow> run_state \<Rightarrow> run_state" where
  "x_loop beam T load material1 material2 s =
     fold (\<lambda>x. writerow (sample_row beam T load material1 material2 x))
       (x_values (beam_length beam)) s"

definition pairs_loop :: "material list \<Rightarrow> beam \<Rightarrow> real \<Rightarrow> load \<Rightarrow> run_state \<Rightarrow> run_state" where
  "pairs_loop materials beam T load s =
     fold (\<lambda>(material1, material2). x_loop beam T load material1 material2)
       (itertools_product2 materials) s"

definition loads_loop :: "load list \<Rightarrow> material list \<Rightarrow> beam \<Rightarrow> real \<Rightarrow> run_state \<Rightarrow> run_state" where
  "loads_loop loads materials beam T s =
     fold (\<lambda>load. pairs_loop materials beam T load) loads s"

text \<open>
  The \<open>while True\<close> loop that asks for the transition point of one beam. It consumes
  input lines until one is a number strictly between 0 and \<open>L\<close>.
\<close>

fun read_T :: "string \<Rightarrow> real \<Rightarrow> real option list \<Rightarrow> message list
                \<Rightarrow> error + (real \<times> real option list \<times> message list)" where
  "read_T nm L [] out = Inl EOFError"
| "read_T nm L (None # rest) out = read_T nm L rest (out @ [PromptT nm L, InvalidInput])"
| "read_T nm L (Some T # rest) out =
     (if 0 < T \<and> T < L then Inr (T, rest, out @ [PromptT nm L])
      else read_T nm L rest (out @ [PromptT nm L, OutOfRange L]))"

fun beams_loop :: "load list \<Rightarrow> material list \<Rightarrow> beam list \<Rightarrow> (string \<rightharpoonup> real) \<Rightarrow> run_state
                    \<Rightarrow> error + ((string \<rightharpoonup> real) \<times> run_state)" where
  "beams_loop loads materials [] transition_points s = Inr (transition_points, s)"
| "beams_loop loads materials (beam # rest) transition_points s =
     (let s1 = print_msg (Configuring (beam_name beam)) s in
      case read_T (beam_name beam) (beam_length beam) (stdin s1) (stdout s1) of
        Inl e \<Rightarrow> Inl e
      | Inr (T, inp, out) \<Rightarrow>
          beams_loop loads materials rest (transition_points(beam_name beam \<mapsto> T))
            (loads_loop loads materials beam T (s1\<lparr>stdin := inp, stdout := out\<rparr>)))"

subsection \<open>compute\_deflections\<close>

text \<open>
  What a run that raises nothing leaves behind: the lines printed, the rows of the file
  written (\<open>None\<close> when the file was never opened) and the returned dictionary.
\<close>

record outcome =
  printed :: "message list"
  csv_file :: "csv_row list option"
  returned :: "string \<rightharpoonup> real"

definition compute_deflections :: "library \<Rightarrow> string \<Rightarrow> real option list \<Rightarrow> error + outcome" where
  "compute_deflections library output_filename inp =
     (let materials = get_materials library;
          beams = get_beams library;
          loads = get_loads library
      in if beams = [] then
           Inr \<lparr>printed = [NoBeams], csv_file = None, returned = Map.empty\<rparr>
         else if loads = [] then
           Inr \<lparr>printed = [NoLoads], csv_file = None, returned = Map.empty\<rparr>
         else if materials = [] then
           Inr \<lparr>printed = [NoMaterials], csv_file = None, returned = Map.empty\<rparr>
         else
           case beams_loop loads materials beams Map.empty
                  \<lparr>stdin = inp, stdout = [], csv = [header]\<rparr> of
             Inl e \<Rightarrow> Inl e
           | Inr (transition_points, s) \<Rightarrow>
               Inr \<lparr>printed = stdout s @ [Written output_filename],
                    csv_file = Some (csv s),
                    returned = transition_points\<rparr>)"

text \<open>The evaluation records of a run: the rows of the file after the header row.\<close>

definition data_rows :: "outcome \<Rightarrow> csv_row list" where
  "data_rows out = (case csv_file out of None \<Rightarrow> [] | Some rows \<Rightarrow> tl rows)"

subsection \<open>The record order in the words of the specification\<close>

text \<open>
  Beam-major, then load, then material1, then material2 over the full ordered square of
  the material list, then the samples of the beam in their order; \<open>bts\<close> pairs every
  beam with its transition point.
\<close>

definition ordered_records :: "load list \<Rightarrow> material list \<Rightarrow> (beam \<times> real) list \<Rightarrow> csv_row list" where
  "ordered_records loads materials bts =
     [sample_row b T l m1 m2 x.
        (b, T) \<leftarrow> bts, l \<leftarrow> loads, m1 \<leftarrow> materials, m2 \<leftarrow> materials,
        x \<leftarrow> x_values (beam_length b)]"

text \<open>An example library with one short beam, used to run the sweep on concrete data.\<close>

definition example_library :: library where
  "example_library =
     \<lparr>get_materials = [\<lparr>material_name = ''steel'', material_E = 2\<rparr>],
      get_beams = [\<lparr>beam_name = ''b1'', beam_length = 0.005, beam_moment_of_inertia = 1\<rparr>],
      get_loads = [\<lparr>load_name = ''q1'', load_w = 3\<rparr>]\<rparr>"

section \<open>Properties of the deflection model\<close>

subsection \<open>Algebra of the closed forms\<close>










subsection \<open>Continuity at the transition point\<close>



subsection \<open>Single-material degeneracy\<close>



subsection \<open>No division by zero\<close>



subsection \<open>Values at the left end\<close>





section \<open>Properties of the sampling grid and of rounding\<close>

lemma x_values_eq: "x_values L = map (\<lambda>i. real i * step) [0..<nat \<lceil>L / step + 1\<rceil>]"
  by (simp add: x_values_def arange_def step_def add_divide_distrib)



lemma x_values_nonneg: "x \<in> set (x_values L) \<Longrightarrow> 0 \<le> x"
  by (auto simp: x_values_eq step_def)

text \<open>Every sample lies below \<open>L + step\<close>, the stop value handed to \<open>arange\<close>.\<close>

lemma x_values_below_stop:
  assumes "x \<in> set (x_values L)"
  shows "x < L + step"
proof -
  from assms obtain i :: nat where i: "i < nat \<lceil>L / step + 1\<rceil>" and x: "x = real i * step"
    by (auto simp: x_values_eq)
  from i have "int i < \<lceil>L / step + 1\<rceil>" by linarith
  then have "real i < L / step + 1"
    by (metis less_ceiling_iff of_int_of_nat_eq)
  then have "real i * step < (L / step + 1) * step"
    by (simp add: step_def)
  then show ?thesis using x by (simp add: step_def algebra_simps)
qed

text \<open>When the length is a whole number of steps, the grid ends at the length.\<close>

lemma x_values_multiple:
  "x_values (real k * step) = map (\<lambda>i. real i * step) [0..<Suc k]"
proof -
  have "real k * step / step + 1 = of_int (int (Suc k))"
    by (simp add: step_def)
  then have "nat \<lceil>real k * step / step + 1\<rceil> = Suc k"
    by (simp only: ceiling_of_int nat_int)
  then show ?thesis
    by (simp only: x_values_eq)
qed

lemma x_values_multiple_last: "last (x_values (real k * step)) = real k * step"
  by (simp add: x_values_multiple)

lemma x_values_multiple_within:
  assumes "x \<in> set (x_values (real k * step))"
  shows "0 \<le> x \<and> x \<le> real k * step"
proof -
  from assms have "\<exists>i. i < Suc k \<and> x = real i * step"
    unfolding x_values_multiple by (auto simp del: upt_Suc)
  then obtain i where "i \<le> k" and "x = real i * step"
    by (auto simp: less_Suc_eq_le)
  then show ?thesis
    by (simp add: step_def)
qed

lemma rint_of_int: "rint (of_int k) = k"
  by (simp add: rint_def)




text \<open>
  The samples are multiples of 0.0025, hence of 0.0001: in exact arithmetic rounding a
  sample to four decimals leaves it unchanged.
\<close>

lemma round_ndigits_grid:
  assumes "x \<in> set (x_values L)"
  shows "round_ndigits x 4 = x"
proof -
  from assms obtain i :: nat where "x = real i * step"
    by (auto simp: x_values_eq)
  then have scaled: "x * 10 ^ 4 = of_int (25 * int i)"
    by (simp add: step_def)
  have "round_ndigits x 4 = of_int (rint (of_int (25 * int i))) / 10 ^ 4"
    by (simp only: round_ndigits_def scaled)
  also have "\<dots> = of_int (25 * int i) / 10 ^ 4"
    by (simp only: rint_of_int)
  also have "\<dots> = x"
    using scaled by simp
  finally show ?thesis .
qed

subsection \<open>Samples beyond the beam\<close>

text \<open>
  Claim C2 states that for every beam length \<open>L > 0\<close> the samples of the sweep contain
  \<open>x = L\<close> and all lie in the closed interval from 0 to \<open>L\<close>. The source comments the
  grid as "x values from 0 to L", yet for a length that is not a whole number of steps
  the grid built by \<open>arange\<close> runs past the beam. For the beam length \<open>L = 1.001\<close> there
  are 402 samples, the last one is 1.0025, which is greater than \<open>L\<close>, and \<open>L\<close> itself is
  not among the samples.
\<close>

theorem x_values_overshoot:
  "length (x_values (1001 / 1000)) = 402
     \<and> last (x_values (1001 / 1000)) = 401 / 400
     \<and> (1001 / 1000 :: real) < 401 / 400
     \<and> 1001 / 1000 \<notin> set (x_values (1001 / 1000))"
proof -
  have n: "nat \<lceil>(1001 / 1000 :: real) / step + 1\<rceil> = 402"
    by (simp add: step_def)
  have xs: "x_values (1001 / 1000) = map (\<lambda>i. real i * step) [0..<402]"
    by (simp only: x_values_eq n)
  have "last (x_values (1001 / 1000)) = 401 / 400"
    by (simp add: xs last_map step_def)
  moreover have "1001 / 1000 \<notin> set (x_values (1001 / 1000))"
  proof
    assume "1001 / 1000 \<in> set (x_values (1001 / 1000))"
    then obtain i :: nat where "1001 / 1000 = real i * step"
      by (auto simp: xs)
    then have "real (5 * i) = real 2002"
      by (simp add: step_def)
    then have "5 * i = 2002"
      by (simp only: of_nat_eq_iff)
    then show False by presburger
  qed
  ultimately show ?thesis
    by (simp add: xs)
qed

section \<open>Properties of the sweep\<close>

subsection \<open>What the loops write\<close>

lemma fold_writes:
  assumes "\<And>x s. g x s = s\<lparr>csv := csv s @ h x\<rparr>"
  shows "fold g xs s = s\<lparr>csv := csv s @ concat (map h xs)\<rparr>"
  by (induction xs arbitrary: s) (simp_all add: assms)

lemma x_loop_writes:
  "x_loop b T l m1 m2 s =
     s\<lparr>csv := csv s @ map (sample_row b T l m1 m2) (x_values (beam_length b))\<rparr>"
proof -
  have "x_loop b T l m1 m2 s =
      s\<lparr>csv := csv s @ concat (map (\<lambda>x. [sample_row b T l m1 m2 x]) (x_values (beam_length b)))\<rparr>"
    unfolding x_loop_def by (rule fold_writes) (simp add: writerow_def)
  also have "concat (map (\<lambda>x. [sample_row b T l m1 m2 x]) (x_values (beam_length b)))
      = map (sample_row b T l m1 m2) (x_values (beam_length b))"
    by (induction "x_values (beam_length b)") simp_all
  finally show ?thesis .
qed

lemma concat_map_square:
  "concat (map (\<lambda>(a, b). f a b) (concat (map (\<lambda>a. map (\<lambda>b. (a, b)) ys) xs)))
     = concat (map (\<lambda>a. concat (map (f a) ys)) xs)"
  by (induction xs) (simp_all add: comp_def)

lemma pairs_loop_writes:
  "pairs_loop ms b T l s =
     s\<lparr>csv := csv s @ [sample_row b T l m1 m2 x. m1 \<leftarrow> ms, m2 \<leftarrow> ms, x \<leftarrow> x_values (beam_length b)]\<rparr>"
proof -
  have "pairs_loop ms b T l s =
      s\<lparr>csv := csv s @ concat (map (\<lambda>(m1, m2). map (sample_row b T l m1 m2) (x_values (beam_length b)))
                                    (itertools_product2 ms))\<rparr>"
    unfolding pairs_loop_def by (rule fold_writes) (simp add: x_loop_writes split: prod.splits)
  also have "concat (map (\<lambda>(m1, m2). map (sample_row b T l m1 m2) (x_values (beam_length b)))
                                    (itertools_product2 ms))
     = [sample_row b T l m1 m2 x. m1 \<leftarrow> ms, m2 \<leftarrow> ms, x \<leftarrow> x_values (beam_length b)]"
    by (simp add: itertools_product2_def concat_map_square)
  finally show ?thesis .
qed

lemma loads_loop_writes:
  "loads_loop ls ms b T s = s\<lparr>csv := csv s @ ordered_records ls ms [(b, T)]\<rparr>"
  unfolding loads_loop_def ordered_records_def
  by (simp add: fold_writes [OF pairs_loop_writes])





subsection \<open>Runs that return\<close>

text \<open>
  The prompt loop ends as soon as a line holds a valid transition point, so a run whose
  input offers one valid value per beam returns; a run whose input ends before that
  raises EOFError.
\<close>

lemma beams_loop_returns:
  assumes "list_all2 (\<lambda>b T. 0 < T \<and> T < beam_length b) bs Ts"
  shows "stdin s = map Some Ts @ rest \<Longrightarrow> \<exists>r. beams_loop ls ms bs tp s = Inr r"
  using assms
proof (induction bs Ts arbitrary: tp s rule: list_all2_induct)
  case Nil
  then show ?case by simp
next
  case (Cons b T bs Ts)
  then show ?case
    by (simp add: Let_def print_msg_def loads_loop_writes)
qed

lemma compute_deflections_returns:
  assumes "list_all2 (\<lambda>b T. 0 < T \<and> T < beam_length b) (get_beams lib) Ts"
  shows "\<exists>out. compute_deflections lib fn (map Some Ts) = Inr out"
proof -
  from beams_loop_returns [OF assms, of "\<lparr>stdin = map Some Ts, stdout = [], csv = [header]\<rparr>" "[]"]
  obtain r where "beams_loop (get_loads lib) (get_materials lib) (get_beams lib) Map.empty
         \<lparr>stdin = map Some Ts, stdout = [], csv = [header]\<rparr> = Inr r"
    by fastforce
  then show ?thesis
    by (cases r) (simp add: compute_deflections_def Let_def)
qed

subsection \<open>Sweep cardinality\<close>







subsection \<open>Record order\<close>



subsection \<open>Empty collections\<close>

text \<open>
  Claim C6. If the beam, the load or the material collection is empty,
  \<open>compute_deflections\<close> writes no evaluation record, prints one message naming a
  collection that is empty, returns the empty dictionary and raises nothing.
\<close>

theorem empty_collection_handled:
  assumes "get_beams lib = [] \<or> get_loads lib = [] \<or> get_materials lib = []"
  shows "\<exists>m. compute_deflections lib fn inp
               = Inr \<lparr>printed = [m], csv_file = None, returned = Map.empty\<rparr>
           \<and> data_rows \<lparr>printed = [m], csv_file = None, returned = Map.empty\<rparr> = []
           \<and> (m = NoBeams \<and> get_beams lib = []
              \<or> m = NoLoads \<and> get_loads lib = []
              \<or> m = NoMaterials \<and> get_materials lib = [])"
  using assms by (auto simp: compute_deflections_def Let_def data_rows_def)

theorem empty_collection_handled_witness:
  "(get_beams (example_library\<lparr>get_loads := []\<rparr>) = []
      \<or> get_loads (example_library\<lparr>get_loads := []\<rparr>) = []
      \<or> get_materials (example_library\<lparr>get_loads := []\<rparr>) = [])
   \<and> compute_deflections (example_library\<lparr>get_loads := []\<rparr>) ''deflection_results.csv'' []
       = Inr \<lparr>printed = [NoLoads], csv_file = None, returned = Map.empty\<rparr>"
  using empty_collection_handled
          [of "example_library\<lparr>get_loads := []\<rparr>" "''deflection_results.csv''" "[]"]
  by (auto simp: example_library_def)

subsection \<open>Fields of a record\<close>




end
